theory Spec2Isabelle
  imports Main
begin

section \<open>The header \<^verbatim>\<open>src/display/User_Setup.h\<close>\<close>

text \<open>
  The configuration header is a text file.  It is embedded as the list of its lines, in
  file order, split at the newline byte; the last line (\<^verbatim>\<open>SPI_FREQUENCY\<close>) is not
  followed by a newline, so the 45 newline bytes of the file delimit 46 lines.
  Bytes that cannot stand inside a string literal (the double quote \<^verbatim>\<open>0x22\<close>, the
  apostrophe \<^verbatim>\<open>0x27\<close> and the four UTF-8 bytes of the pointing-hand sign in the
  comment of line 35) are written as character codes.
\<close>

definition User_Setup_h :: "string list" where
  "User_Setup_h = [
    ''//                            USER DEFINED SETTINGS'',
    ''//   Set driver type, fonts to be loaded, pins used and SPI control method etc.'',
    ''//'',
    ''//   See the User_Setup_Select.h file if you wish to be able to define multiple'',
    ''//   setups and then easily select which setup file is used by the compiler.'',
    ''//'',
    ''//   If this file is edited correctly then all the library example sketches should'',
    ''//   run without the need to make any more changes for a particular hardware setup!'',
    ''//   Note that some sketches are designed for a particular TFT pixel width/height'',
    '''',
    ''// Define to disable all #warnings in library (can be put in User_Setup_Select.h)'',
    ''//#define DISABLE_ALL_LIBRARY_WARNINGS'',
    '''',
    ''// ##################################################################################'',
    ''//'',
    ''// Section 1. Call up the right driver file and any options for it'',
    ''//'',
    ''// ##################################################################################'',
    '''',
    ''// === BatController (ST7735S 160x128) ==='',
    ''#define USER_SETUP_INFO '' @ [CHR 0x22] @ ''BatController ST7735 160x128'' @ [CHR 0x22],
    '''',
    ''#define ST7735_DRIVER'',
    ''#define TFT_WIDTH   128'',
    ''#define TFT_HEIGHT  160'',
    '''',
    ''#define LOAD_GLCD    // Font 1 (classic 8x6) - always good to have'',
    ''#define LOAD_FONT2   // Font 2 (small 16px) - what we'' @ [CHR 0x27] @ ''re using in the sketch'',
    '''',
    ''// pick ONE tab; GREENTAB is common for 160x128'',
    ''// #define ST7735_GREENTAB'',
    ''#define ST7735_BLACKTAB'',
    ''// #define ST7735_REDTAB'',
    '''',
    ''// '' @ [CHR 0xF0] @ [CHR 0x9F] @ [CHR 0x91] @ [CHR 0x87] @ '' THIS is the key line for your colors:'',
    ''#define TFT_RGB_ORDER TFT_BGR'',
    '''',
    ''// (keep your working pins)'',
    ''#define TFT_MOSI 21'',
    ''#define TFT_SCLK 22'',
    ''#define TFT_CS   -1'',
    ''#define TFT_DC    5'',
    ''#define TFT_RST  17'',
    ''#define TFT_BL    0'',
    '''',
    ''#define SPI_FREQUENCY 27000000''
  ]"

section \<open>What the C preprocessor sees in one line\<close>

text \<open>
  The characters the preprocessor distinguishes: horizontal white space, decimal digits,
  and the characters of an identifier.
\<close>

definition is_space :: "char \<Rightarrow> bool" where
  "is_space c = (c = CHR '' '' \<or> c = CHR 0x09)"

definition is_digit :: "char \<Rightarrow> bool" where
  "is_digit c = (c \<in> set ''0123456789'')"

definition is_ident_char :: "char \<Rightarrow> bool" where
  "is_ident_char c =
     (c \<in> set ''ABCDEFGHIJKLMNOPQRSTUVWXYZabcdefghijklmnopqrstuvwxyz0123456789_'')"

definition skip_ws :: "string \<Rightarrow> string" where
  "skip_ws s = dropWhile is_space s"

definition trim :: "string \<Rightarrow> string" where
  "trim s = rev (skip_ws (rev (skip_ws s)))"

text \<open>
  A \<^verbatim>\<open>//\<close> comment runs to the end of its line, unless the two slashes stand inside a
  string or character literal.  The first argument is the quote that opened the literal
  being read, if any.
\<close>

fun strip_comment :: "char option \<Rightarrow> string \<Rightarrow> string" where
  "strip_comment q [] = []"
| "strip_comment None (c # cs) =
     (if take 2 (c # cs) = ''//'' then []
      else c # strip_comment (if c = CHR 0x22 \<or> c = CHR 0x27 then Some c else None) cs)"
| "strip_comment (Some q) (c # cs) =
     c # strip_comment (if c = q then None else Some q) cs"

text \<open>
  The kinds of line: empty or white space only; comment only; an object-like
  \<^verbatim>\<open>#define\<close> with the macro's name and its replacement text (empty for a flag);
  any other directive (\<^verbatim>\<open>#if\<close>, \<^verbatim>\<open>#ifdef\<close>, \<^verbatim>\<open>#include\<close>, ...) with its keyword;
  and anything else, which the compiler proper would have to parse (declarations,
  statements).
\<close>

datatype line = Blank | Comment | Define string string | Directive string | Statement

definition parse_directive :: "string \<Rightarrow> line" where
  "parse_directive s =
     (let t = skip_ws s;
          kw = takeWhile is_ident_char t;
          u = skip_ws (dropWhile is_ident_char t);
          name = takeWhile is_ident_char u
      in if kw = ''define'' \<and> name \<noteq> [] \<and> \<not> is_digit (hd name)
         then Define name (trim (dropWhile is_ident_char u))
         else Directive kw)"

definition parse_line :: "string \<Rightarrow> line" where
  "parse_line l =
     (let s = skip_ws (strip_comment None l)
      in case s of
           [] \<Rightarrow> if skip_ws l = [] then Blank else Comment
         | c # cs \<Rightarrow> if c = CHR ''#'' then parse_directive cs else Statement)"

definition define_of :: "line \<Rightarrow> (string \<times> string) option" where
  "define_of l = (case l of Define n b \<Rightarrow> Some (n, b) | _ \<Rightarrow> None)"

text \<open>The active definitions of the file, in file order: name and replacement text.\<close>

definition active_defines :: "(string \<times> string) list" where
  "active_defines = List.map_filter define_of (map parse_line User_Setup_h)"

definition macro_names :: "string list" where
  "macro_names = map fst active_defines"

text \<open>The replacement text of a macro, if the file defines it.\<close>

definition macro :: "string \<Rightarrow> string option" where
  "macro n = map_of active_defines n"

definition is_defined :: "string \<Rightarrow> bool" where
  "is_defined n = (macro n \<noteq> None)"

text \<open>How many active \<^verbatim>\<open>#define\<close> lines name a given macro.\<close>

definition define_count :: "string \<Rightarrow> nat" where
  "define_count n = length (filter (\<lambda>m. m = n) macro_names)"

text \<open>The lines that are neither blank nor comment.\<close>

definition significant_lines :: "line list" where
  "significant_lines =
     filter (\<lambda>l. l \<noteq> Blank \<and> l \<noteq> Comment) (map parse_line User_Setup_h)"

text \<open>
  Reading the file line by line is the preprocessor's reading only if no line is spliced
  to the next by a final backslash and no block comment is opened.
\<close>

fun has_block_comment :: "string \<Rightarrow> bool" where
  "has_block_comment [] = False"
| "has_block_comment (c # cs) = (take 2 (c # cs) = ''/*'' \<or> has_block_comment cs)"

definition spliced_lines :: "string list" where
  "spliced_lines =
     filter (\<lambda>l. (l \<noteq> [] \<and> last l = CHR 0x5C) \<or> has_block_comment l) User_Setup_h"

section \<open>Values of macros\<close>

text \<open>
  A decimal integer constant: \<^verbatim>\<open>0\<close>, or digits that do not start with \<^verbatim>\<open>0\<close> (a longer
  constant with a leading zero is octal in C and is not read here); a replacement text
  \<^verbatim>\<open>-\<close>\<open>d\<close> is the negation of the constant \<open>d\<close>.
\<close>

definition digit_val :: "char \<Rightarrow> int" where
  "digit_val c = int (of_char c) - int (of_char (CHR ''0''))"

definition parse_nat :: "string \<Rightarrow> int option" where
  "parse_nat s =
     (if s \<noteq> [] \<and> list_all is_digit s \<and> (length s = 1 \<or> hd s \<noteq> CHR ''0'')
      then Some (foldl (\<lambda>a c. 10 * a + digit_val c) 0 s)
      else None)"

definition parse_int :: "string \<Rightarrow> int option" where
  "parse_int s =
     (case s of
        [] \<Rightarrow> None
      | c # cs \<Rightarrow> if c = CHR ''-'' then map_option uminus (parse_nat (skip_ws cs))
                  else parse_nat s)"

definition macro_int :: "string \<Rightarrow> int option" where
  "macro_int n = (case macro n of None \<Rightarrow> None | Some b \<Rightarrow> parse_int b)"

text \<open>The macros whose replacement text is an integer, with their values, in file order.\<close>

definition int_macros :: "(string \<times> int) list" where
  "int_macros =
     List.map_filter (\<lambda>(n, b). map_option (Pair n) (parse_int b)) active_defines"

text \<open>The macros with an empty replacement text: the flags.\<close>

definition flag_macros :: "string list" where
  "flag_macros = map fst (filter (\<lambda>(n, b). b = []) active_defines)"

definition ends_with :: "string \<Rightarrow> string \<Rightarrow> bool" where
  "ends_with suf s = (length suf \<le> length s \<and> drop (length s - length suf) s = suf)"

subsection \<open>Driver and tab variant\<close>

text \<open>
  The library names its controller drivers \<open>X\<close>\<^verbatim>\<open>_DRIVER\<close>; the file's driver flags are
  the flags of that form.  The ST7735 tab variants are the three named in lines 30 to 33.
\<close>

definition driver_flags :: "string list" where
  "driver_flags = filter (ends_with ''_DRIVER'') flag_macros"

definition tab_variants :: "string list" where
  "tab_variants = [''ST7735_GREENTAB'', ''ST7735_BLACKTAB'', ''ST7735_REDTAB'']"

definition tab_flags :: "string list" where
  "tab_flags = filter (\<lambda>n. n \<in> set tab_variants) flag_macros"

subsection \<open>Colour order\<close>

datatype rgb_order = TFT_RGB | TFT_BGR

definition rgb_order_of :: "string \<Rightarrow> rgb_order option" where
  "rgb_order_of s =
     (if s = ''TFT_RGB'' then Some TFT_RGB
      else if s = ''TFT_BGR'' then Some TFT_BGR
      else None)"

definition tft_rgb_order :: "rgb_order option" where
  "tft_rgb_order =
     (case macro ''TFT_RGB_ORDER'' of None \<Rightarrow> None | Some b \<Rightarrow> rgb_order_of b)"

subsection \<open>Pins\<close>

text \<open>
  The pin block of the file: the lines after the comment \<^verbatim>\<open>// (keep your working pins)\<close>
  up to the next blank line (lines 39 to 44).
\<close>

definition pin_section :: "string list" where
  "pin_section =
     takeWhile (\<lambda>l. skip_ws l \<noteq> [])
       (drop 1 (dropWhile (\<lambda>l. l \<noteq> ''// (keep your working pins)'') User_Setup_h))"

definition pin_macros :: "(string \<times> int option) list" where
  "pin_macros =
     map (\<lambda>(n, b). (n, parse_int b))
       (List.map_filter define_of (map parse_line pin_section))"

text \<open>A pin value the library accepts: a GPIO number, or \<open>-1\<close> for "not connected".\<close>

definition pin_value_ok :: "int option \<Rightarrow> bool" where
  "pin_value_ok v = (case v of None \<Rightarrow> False | Some i \<Rightarrow> 0 \<le> i \<or> i = - 1)"

definition unconnected_pins :: "string list" where
  "unconnected_pins = map fst (filter (\<lambda>(n, v). v = Some (- 1)) pin_macros)"

definition connected_pins :: "(string \<times> int) list" where
  "connected_pins =
     List.map_filter (\<lambda>(n, v). case v of None \<Rightarrow> None
                               | Some i \<Rightarrow> if i = - 1 then None else Some (n, i)) pin_macros"

subsection \<open>The setup label\<close>

text \<open>
  \<^verbatim>\<open>USER_SETUP_INFO\<close> is a string literal; its contents are read as words separated by
  single spaces, and a geometry word as two numbers separated by \<^verbatim>\<open>x\<close>.
\<close>

definition unquote :: "string \<Rightarrow> string option" where
  "unquote s =
     (if 2 \<le> length s \<and> hd s = CHR 0x22 \<and> last s = CHR 0x22
      then Some (butlast (tl s)) else None)"

fun split_on :: "char \<Rightarrow> string \<Rightarrow> string list" where
  "split_on d [] = [[]]"
| "split_on d (c # cs) =
     (if c = d then [] # split_on d cs
      else case split_on d cs of
             [] \<Rightarrow> [[c]]
           | w # ws \<Rightarrow> (c # w) # ws)"

definition setup_info :: "string option" where
  "setup_info = (case macro ''USER_SETUP_INFO'' of None \<Rightarrow> None | Some b \<Rightarrow> unquote b)"

definition setup_info_words :: "string list" where
  "setup_info_words =
     (case setup_info of None \<Rightarrow> [] | Some s \<Rightarrow> split_on (CHR '' '') s)"

definition info_controller :: "string option" where
  "info_controller = (case setup_info_words of [_, d, _] \<Rightarrow> Some d | _ \<Rightarrow> None)"

definition info_geometry :: "int option list" where
  "info_geometry =
     (case setup_info_words of
        [_, _, g] \<Rightarrow> map parse_int (split_on (CHR ''x'') g)
      | _ \<Rightarrow> [])"

definition label_names_driver :: bool where
  "label_names_driver =
     (case info_controller of None \<Rightarrow> False | Some d \<Rightarrow> driver_flags = [d @ ''_DRIVER''])"

definition portrait_geometry :: bool where
  "portrait_geometry =
     (case (macro_int ''TFT_WIDTH'', macro_int ''TFT_HEIGHT'') of
        (Some w, Some h) \<Rightarrow> w < h
      | _ \<Rightarrow> False)"

subsection \<open>Lines that are not definitions\<close>

definition positive_macro :: "string \<Rightarrow> bool" where
  "positive_macro n = (case macro_int n of None \<Rightarrow> False | Some v \<Rightarrow> 0 < v)"

definition other_directives :: "string list" where
  "other_directives =
     List.map_filter (\<lambda>l. case l of Directive kw \<Rightarrow> Some kw | _ \<Rightarrow> None)
       (map parse_line User_Setup_h)"

definition statement_lines :: "string list" where
  "statement_lines = filter (\<lambda>l. parse_line l = Statement) User_Setup_h"

section \<open>Reading the file\<close>

lemmas char_class_defs = is_space_def is_digit_def is_ident_char_def

lemmas reader_defs = parse_line_def parse_directive_def skip_ws_def trim_def

lemmas number_defs = parse_int_def parse_nat_def digit_val_def skip_ws_def

lemma parsed_lines:
  "map parse_line User_Setup_h =
     [Comment, Comment, Comment, Comment, Comment, Comment, Comment, Comment, Comment,
      Blank, Comment, Comment, Blank, Comment, Comment, Comment, Comment, Comment,
      Blank, Comment,
      Define ''USER_SETUP_INFO'' (CHR 0x22 # ''BatController ST7735 160x128'' @ [CHR 0x22]),
      Blank,
      Define ''ST7735_DRIVER'' [],
      Define ''TFT_WIDTH'' ''128'',
      Define ''TFT_HEIGHT'' ''160'',
      Blank,
      Define ''LOAD_GLCD'' [],
      Define ''LOAD_FONT2'' [],
      Blank, Comment, Comment,
      Define ''ST7735_BLACKTAB'' [],
      Comment, Blank, Comment,
      Define ''TFT_RGB_ORDER'' ''TFT_BGR'',
      Blank, Comment,
      Define ''TFT_MOSI'' ''21'',
      Define ''TFT_SCLK'' ''22'',
      Define ''TFT_CS'' ''-1'',
      Define ''TFT_DC'' ''5'',
      Define ''TFT_RST'' ''17'',
      Define ''TFT_BL'' ''0'',
      Blank,
      Define ''SPI_FREQUENCY'' ''27000000'']"
  by (simp add: User_Setup_h_def reader_defs char_class_defs)

lemma active_defines_eq:
  "active_defines =
     [(''USER_SETUP_INFO'', CHR 0x22 # ''BatController ST7735 160x128'' @ [CHR 0x22]),
      (''ST7735_DRIVER'', []),
      (''TFT_WIDTH'', ''128''),
      (''TFT_HEIGHT'', ''160''),
      (''LOAD_GLCD'', []),
      (''LOAD_FONT2'', []),
      (''ST7735_BLACKTAB'', []),
      (''TFT_RGB_ORDER'', ''TFT_BGR''),
      (''TFT_MOSI'', ''21''),
      (''TFT_SCLK'', ''22''),
      (''TFT_CS'', ''-1''),
      (''TFT_DC'', ''5''),
      (''TFT_RST'', ''17''),
      (''TFT_BL'', ''0''),
      (''SPI_FREQUENCY'', ''27000000'')]"
  by (simp add: active_defines_def parsed_lines List.map_filter_def define_of_def)

lemma macro_names_eq:
  "macro_names =
     [''USER_SETUP_INFO'', ''ST7735_DRIVER'', ''TFT_WIDTH'', ''TFT_HEIGHT'', ''LOAD_GLCD'',
      ''LOAD_FONT2'', ''ST7735_BLACKTAB'', ''TFT_RGB_ORDER'', ''TFT_MOSI'', ''TFT_SCLK'',
      ''TFT_CS'', ''TFT_DC'', ''TFT_RST'', ''TFT_BL'', ''SPI_FREQUENCY'']"
  by (simp add: macro_names_def active_defines_eq)

lemma flag_macros_eq:
  "flag_macros = [''ST7735_DRIVER'', ''LOAD_GLCD'', ''LOAD_FONT2'', ''ST7735_BLACKTAB'']"
  by (simp add: flag_macros_def active_defines_eq)

lemma int_macros_eq:
  "int_macros =
     [(''TFT_WIDTH'', 128), (''TFT_HEIGHT'', 160), (''TFT_MOSI'', 21), (''TFT_SCLK'', 22),
      (''TFT_CS'', - 1), (''TFT_DC'', 5), (''TFT_RST'', 17), (''TFT_BL'', 0),
      (''SPI_FREQUENCY'', 27000000)]"
  by (simp add: int_macros_def active_defines_eq List.map_filter_def number_defs
      char_class_defs)

lemma geometry_macros:
  "macro_int ''TFT_WIDTH'' = Some 128" "macro_int ''TFT_HEIGHT'' = Some 160"
  by (simp_all add: macro_int_def macro_def active_defines_eq number_defs char_class_defs)

lemma driver_flags_eq: "driver_flags = [''ST7735_DRIVER'']"
  by (simp add: driver_flags_def flag_macros_eq ends_with_def)

lemma pin_section_eq:
  "pin_section =
     [''#define TFT_MOSI 21'', ''#define TFT_SCLK 22'', ''#define TFT_CS   -1'',
      ''#define TFT_DC    5'', ''#define TFT_RST  17'', ''#define TFT_BL    0'']"
  by (simp add: pin_section_def User_Setup_h_def skip_ws_def is_space_def)

lemma pin_macros_eq:
  "pin_macros =
     [(''TFT_MOSI'', Some 21), (''TFT_SCLK'', Some 22), (''TFT_CS'', Some (- 1)),
      (''TFT_DC'', Some 5), (''TFT_RST'', Some 17), (''TFT_BL'', Some 0)]"
  by (simp add: pin_macros_def pin_section_eq List.map_filter_def define_of_def
      reader_defs number_defs char_class_defs)

lemma setup_info_words_eq:
  "setup_info_words = [''BatController'', ''ST7735'', ''160x128'']"
  by (simp add: setup_info_words_def setup_info_def macro_def active_defines_eq unquote_def)

lemma filter_eq_at_most_one:
  "distinct xs \<Longrightarrow> length (filter (\<lambda>m. m = n) xs) \<le> Suc 0"
  by (induction xs) (auto simp: filter_empty_conv)

section \<open>Properties of the configuration\<close>

text \<open>
  C1.  The pin block defines exactly six macros, \<^verbatim>\<open>TFT_MOSI\<close>, \<^verbatim>\<open>TFT_SCLK\<close>, \<^verbatim>\<open>TFT_CS\<close>,
  \<^verbatim>\<open>TFT_DC\<close>, \<^verbatim>\<open>TFT_RST\<close> and \<^verbatim>\<open>TFT_BL\<close>.  Each has an integer value, each value is a
  GPIO number \<open>\<ge> 0\<close> or the sentinel \<open>-1\<close>, and at most one of them (here exactly one,
  \<^verbatim>\<open>TFT_CS\<close>) is the sentinel.  Besides the geometry and the SPI frequency, the file has no
  other integer-valued macro.
\<close>

theorem six_pin_assignments:
  "map fst pin_macros =
     [''TFT_MOSI'', ''TFT_SCLK'', ''TFT_CS'', ''TFT_DC'', ''TFT_RST'', ''TFT_BL'']
   \<and> length pin_macros = 6
   \<and> map snd pin_macros = [Some 21, Some 22, Some (- 1), Some 5, Some 17, Some 0]
   \<and> list_all pin_value_ok (map snd pin_macros)
   \<and> length unconnected_pins \<le> 1
   \<and> unconnected_pins = [''TFT_CS'']
   \<and> map fst int_macros =
       [''TFT_WIDTH'', ''TFT_HEIGHT''] @ map fst pin_macros @ [''SPI_FREQUENCY'']"
  by (simp add: pin_macros_eq int_macros_eq unconnected_pins_def pin_value_ok_def)

text \<open>
  C2.  Exactly one display-driver selection flag is defined in the file, and it is
  \<^verbatim>\<open>ST7735_DRIVER\<close>: it is defined once, with an empty replacement text, and no other
  macro of the file is a driver flag.
\<close>

theorem one_driver_flag:
  "driver_flags = [''ST7735_DRIVER'']
   \<and> macro ''ST7735_DRIVER'' = Some []
   \<and> define_count ''ST7735_DRIVER'' = 1
   \<and> filter (ends_with ''_DRIVER'') macro_names = [''ST7735_DRIVER'']"
  by (simp add: driver_flags_eq macro_def active_defines_eq define_count_def macro_names_eq
      ends_with_def)

text \<open>
  C3.  The panel geometry macros \<^verbatim>\<open>TFT_WIDTH\<close> and \<^verbatim>\<open>TFT_HEIGHT\<close> are both defined, with the
  positive integer values 128 and 160.
\<close>

theorem panel_geometry:
  "is_defined ''TFT_WIDTH'' \<and> is_defined ''TFT_HEIGHT''
   \<and> macro_int ''TFT_WIDTH'' = Some 128 \<and> macro_int ''TFT_HEIGHT'' = Some 160
   \<and> positive_macro ''TFT_WIDTH'' \<and> positive_macro ''TFT_HEIGHT''"
  by (simp add: is_defined_def positive_macro_def macro_int_def macro_def active_defines_eq
      number_defs char_class_defs)

text \<open>
  C4.  \<^verbatim>\<open>TFT_RGB_ORDER\<close> is defined, its value is one of the two colour orders, and in this
  configuration it is \<^verbatim>\<open>TFT_BGR\<close>.
\<close>

theorem colour_order_is_bgr:
  "is_defined ''TFT_RGB_ORDER''
   \<and> macro ''TFT_RGB_ORDER'' = Some ''TFT_BGR''
   \<and> tft_rgb_order = Some TFT_BGR
   \<and> (\<exists>order. tft_rgb_order = Some order)"
  by (simp add: is_defined_def tft_rgb_order_def rgb_order_of_def macro_def active_defines_eq)

text \<open>
  C5.  Exactly one of the tab variant flags \<^verbatim>\<open>ST7735_GREENTAB\<close>, \<^verbatim>\<open>ST7735_BLACKTAB\<close>,
  \<^verbatim>\<open>ST7735_REDTAB\<close> is defined, and it is \<^verbatim>\<open>ST7735_BLACKTAB\<close>; the other two are not defined.
\<close>

theorem one_tab_variant:
  "tab_flags = [''ST7735_BLACKTAB'']
   \<and> is_defined ''ST7735_BLACKTAB''
   \<and> \<not> is_defined ''ST7735_GREENTAB''
   \<and> \<not> is_defined ''ST7735_REDTAB''
   \<and> map define_count tab_variants = [0, 1, 0]"
  by (simp add: tab_flags_def tab_variants_def flag_macros_eq is_defined_def macro_def
      active_defines_eq define_count_def macro_names_eq)

text \<open>
  C6.  \<^verbatim>\<open>SPI_FREQUENCY\<close> is defined once, as the positive integer 27000000 (hertz).
\<close>

theorem spi_frequency:
  "define_count ''SPI_FREQUENCY'' = 1
   \<and> macro_int ''SPI_FREQUENCY'' = Some 27000000
   \<and> positive_macro ''SPI_FREQUENCY''"
  by (simp add: define_count_def macro_names_eq positive_macro_def macro_int_def macro_def
      active_defines_eq number_defs char_class_defs)

text \<open>
  C7.  Every macro name appears in at most one active \<^verbatim>\<open>#define\<close> line of the file: the names
  of the active definitions are pairwise distinct, so whatever the name, the number of
  lines defining it is at most one.
\<close>

theorem each_macro_defined_at_most_once:
  "distinct macro_names \<and> (\<forall>n. define_count n \<le> 1)"
proof -
  have d: "distinct macro_names"
    by (simp add: macro_names_eq)
  have "define_count n \<le> 1" for n
    unfolding define_count_def using filter_eq_at_most_one [OF d, of n] by simp
  with d show ?thesis by blast
qed

text \<open>
  C8.  The file has 46 lines.  Every line that is neither blank nor a comment is a
  \<^verbatim>\<open>#define\<close> directive (there are 15, the active definitions in file order); no line
  is another directive, so there is no conditional compilation, and no line is left to the
  compiler proper, so there is no declaration and no statement.  No line is spliced and
  no block comment is opened, so the reading line by line is the preprocessor's.
\<close>

theorem flat_set_of_definitions:
  "length User_Setup_h = 46
   \<and> significant_lines = map (\<lambda>(n, b). Define n b) active_defines
   \<and> length significant_lines = 15
   \<and> other_directives = []
   \<and> statement_lines = []
   \<and> spliced_lines = []"
proof -
  have "length (map parse_line User_Setup_h) = 46"
    unfolding parsed_lines by simp
  then have len: "length User_Setup_h = 46"
    by simp
  have sig: "significant_lines = map (\<lambda>(n, b). Define n b) active_defines"
    by (simp add: significant_lines_def parsed_lines active_defines_eq)
  have n: "length significant_lines = 15"
    unfolding sig by (simp add: active_defines_eq)
  have dir: "other_directives = []"
    by (simp add: other_directives_def parsed_lines List.map_filter_def)
  have "map parse_line statement_lines = filter (\<lambda>k. k = Statement) (map parse_line User_Setup_h)"
    by (simp add: statement_lines_def filter_map comp_def)
  then have "map parse_line statement_lines = []"
    unfolding parsed_lines by simp
  then have st: "statement_lines = []"
    by simp
  have sp: "spliced_lines = []"
    by (simp add: spliced_lines_def User_Setup_h_def)
  from len sig n dir st sp show ?thesis by blast
qed

text \<open>
  C9.  The connected pins, that is the pin macros whose value is not \<open>-1\<close>, are
  \<^verbatim>\<open>TFT_MOSI = 21\<close>, \<^verbatim>\<open>TFT_SCLK = 22\<close>, \<^verbatim>\<open>TFT_DC = 5\<close>, \<^verbatim>\<open>TFT_RST = 17\<close> and \<^verbatim>\<open>TFT_BL = 0\<close>,
  and their GPIO numbers are pairwise distinct.
\<close>

theorem connected_pins_distinct:
  "connected_pins =
     [(''TFT_MOSI'', 21), (''TFT_SCLK'', 22), (''TFT_DC'', 5), (''TFT_RST'', 17),
      (''TFT_BL'', 0)]
   \<and> distinct (map snd connected_pins)"
  by (simp add: connected_pins_def pin_macros_eq List.map_filter_def)

text \<open>
  C10.  The label \<^verbatim>\<open>USER_SETUP_INFO\<close> agrees with the configuration: its controller word
  \<^verbatim>\<open>ST7735\<close> is the name of the one driver flag \<^verbatim>\<open>ST7735_DRIVER\<close>, and its geometry word
  \<^verbatim>\<open>160x128\<close> is \<^verbatim>\<open>TFT_HEIGHT\<close> followed by \<^verbatim>\<open>TFT_WIDTH\<close>, the width being the smaller.
\<close>

theorem label_matches_configuration:
  "setup_info = Some ''BatController ST7735 160x128''
   \<and> info_controller = Some ''ST7735''
   \<and> label_names_driver
   \<and> info_geometry = [Some 160, Some 128]
   \<and> info_geometry = [macro_int ''TFT_HEIGHT'', macro_int ''TFT_WIDTH'']
   \<and> portrait_geometry"
proof -
  have s: "setup_info = Some ''BatController ST7735 160x128''"
    by (simp add: setup_info_def macro_def active_defines_eq unquote_def)
  have c: "info_controller = Some ''ST7735''"
    by (simp add: info_controller_def setup_info_words_eq)
  have d: "label_names_driver"
    by (simp add: label_names_driver_def c driver_flags_eq)
  have g: "info_geometry = [Some 160, Some 128]"
    by (simp add: info_geometry_def setup_info_words_eq number_defs char_class_defs)
  have p: "portrait_geometry"
    by (simp add: portrait_geometry_def geometry_macros)
  from s c d g p show ?thesis
    by (simp add: geometry_macros)
qed

end
